theory Spec2Isabelle
  imports Complex_Main
begin

section \<open>Order lifecycle of the design marketplace backend\<close>

text \<open>
  The development embeds the order model (schema, \<open>pre('save')\<close> hook and the methods
  \<open>calculateTotals\<close>, \<open>addTrackingUpdate\<close>, \<open>processRefund\<close>) and the order routes
  (\<open>POST /\<close>, \<open>PUT /:id/status\<close>, \<open>POST /:id/tracking\<close>, \<open>POST /:id/refund\<close>).

  Conventions of the embedding:
  \<^item> a JavaScript Number is an exact rational (\<open>rat\<close>); IEEE rounding is not modelled;
  \<^item> a Date is its epoch time in milliseconds (\<open>int\<close>); the host's local calendar
    (\<open>getFullYear\<close>, \<open>getMonth\<close>, \<open>getDate\<close> and the constructor
    \<open>new Date(y, m, d)\<close>) is a parameter of the model, a record \<open>runtime\<close>;
  \<^item> the collections are lists of documents in insertion order; a handler takes the
    collection and returns the response together with the new collection;
  \<^item> one clock reading \<open>now\<close> is taken per request;
  \<^item> the authentication middleware has already run: a handler receives the acting
    user's id;
  \<^item> an ObjectId is written as its 24 lower-case hexadecimal characters; an id taken
    from a request is a string and is cast to an ObjectId by the store;
  \<^item> the documents of the collection satisfy the schema (they carry an order number and
    values of the schema's enumerations).
\<close>

subsection \<open>Strings of the host language\<close>

type_synonym jsnum = rat
type_synonym date = int
type_synonym objectId = string

definition digit :: "nat \<Rightarrow> char" where
  "digit d = char_of (48 + d)"

text \<open>\<open>Number.prototype.toString\<close> on a non-negative integer: its decimal digits.\<close>

fun toString :: "nat \<Rightarrow> string" where
  "toString n = (if n < 10 then [digit n] else toString (n div 10) @ [digit (n mod 10)])"

declare toString.simps [simp del]

text \<open>\<open>s.padStart(n, c)\<close> with a one-character filler.\<close>

definition padStart :: "nat \<Rightarrow> char \<Rightarrow> string \<Rightarrow> string" where
  "padStart n c s = replicate (n - length s) c @ s"

text \<open>\<open>s.slice(-k)\<close>: the last \<open>k\<close> characters, the whole string when it is shorter.\<close>

definition slice_last :: "nat \<Rightarrow> string \<Rightarrow> string" where
  "slice_last k s = drop (length s - k) s"

definition isDigit :: "char \<Rightarrow> bool" where
  "isDigit c = (c \<in> set ''0123456789'')"

definition isHexDigit :: "char \<Rightarrow> bool" where
  "isHexDigit c = (c \<in> set ''0123456789abcdefABCDEF'')"

text \<open>The validator \<open>isHexadecimal\<close>, the regular expression
  \<open>/^(0x|0h)?[0-9A-F]+$/i\<close>: hexadecimal digits, at least one, after an optional
  prefix \<open>0x\<close> or \<open>0h\<close> in either case.\<close>

definition isHexadecimal :: "string \<Rightarrow> bool" where
  "isHexadecimal s =
     ((s \<noteq> [] \<and> list_all isHexDigit s) \<or>
      (case s of
         a # b # rest \<Rightarrow> a = CHR ''0'' \<and> b \<in> set ''xXhH'' \<and> rest \<noteq> [] \<and> list_all isHexDigit rest
       | _ \<Rightarrow> False))"

text \<open>The validator \<open>isMongoId\<close>: \<open>isHexadecimal(str) && str.length === 24\<close>.\<close>

definition isMongoId :: "string \<Rightarrow> bool" where
  "isMongoId s = (isHexadecimal s \<and> length s = 24)"

definition lower_hex :: "char \<Rightarrow> char" where
  "lower_hex c =
     (if c = CHR ''A'' then CHR ''a'' else if c = CHR ''B'' then CHR ''b''
      else if c = CHR ''C'' then CHR ''c'' else if c = CHR ''D'' then CHR ''d''
      else if c = CHR ''E'' then CHR ''e'' else if c = CHR ''F'' then CHR ''f'' else c)"

text \<open>The cast of a request string to an ObjectId: exactly 24 hexadecimal digits, in
  either case, denote an ObjectId; every other string raises a cast error (\<open>None\<close>).
  A prefixed string that \<open>isMongoId\<close> accepts is not cast.\<close>

definition castObjectId :: "string \<Rightarrow> objectId option" where
  "castObjectId s =
     (if length s = 24 \<and> list_all isHexDigit s then Some (map lower_hex s) else None)"

definition isSpace :: "char \<Rightarrow> bool" where
  "isSpace c = (c \<in> set [CHR '' '', CHR 0x09, CHR 0x0A, CHR 0x0B, CHR 0x0C, CHR 0x0D])"

text \<open>The sanitizer \<open>trim()\<close>.\<close>

definition trim :: "string \<Rightarrow> string" where
  "trim s = rev (dropWhile isSpace (rev (dropWhile isSpace s)))"

text \<open>Reading a digit string back as a number, to compare sequence suffixes.\<close>

definition digit_value :: "char \<Rightarrow> nat" where
  "digit_value c = of_char c - 48"

definition parseDigits :: "string \<Rightarrow> nat" where
  "parseDigits s = foldl (\<lambda>a c. 10 * a + digit_value c) 0 s"

text \<open>The regular expression \<open>ORD\d{8}\<close> as \<open>RegExp.test\<close> applies it (unanchored):
  some position of the string starts with \<open>ORD\<close> and eight digits.\<close>

definition matches_here :: "string \<Rightarrow> bool" where
  "matches_here s = (take 3 s = ''ORD'' \<and> 11 \<le> length s \<and> list_all isDigit (take 8 (drop 3 s)))"

fun matches_ORD_d8 :: "string \<Rightarrow> bool" where
  "matches_ORD_d8 [] = False"
| "matches_ORD_d8 (c # cs) = (matches_here (c # cs) \<or> matches_ORD_d8 cs)"

subsection \<open>Documents\<close>

record design =
  design_id :: objectId
  title :: string
  design_price :: jsnum
  design_status :: string

record order_item =
  design :: objectId
  quantity :: int
  price :: jsnum
  license :: string

record tracking_update =
  update_status :: string
  location :: "string option"
  timestamp :: date
  description :: "string option"

record tracking =
  number :: "string option"
  carrier :: "string option"
  tracking_status :: "string option"
  updates :: "tracking_update list"

record refund =
  amount :: jsnum
  reason :: string
  processedAt :: date
  processedBy :: objectId

record address =
  name :: "string option"
  email :: "string option"
  phone :: "string option"
  street :: "string option"
  city :: "string option"
  state :: "string option"
  zipCode :: "string option"
  country :: "string option"

record paymentDetails =
  transactionId :: "string option"
  paymentDate :: "date option"
  gateway :: "string option"

record download =
  download_design :: objectId
  downloadUrl :: string
  expiresAt :: date
  downloadCount :: nat

text \<open>The order document. \<open>isNew\<close> is the document state of the object mapper: true for
  a document built by \<open>new Order(...)\<close> until its first save, false for every document
  read from the collection. \<open>orderNumber\<close>, \<open>createdAt\<close> and \<open>updatedAt\<close> are undefined
  (\<open>None\<close>) until the first save.\<close>

record order =
  oid :: objectId
  isNew :: bool
  orderNumber :: "string option"
  customer :: objectId
  items :: "order_item list"
  subtotal :: jsnum
  tax :: jsnum
  total :: jsnum
  currency :: string
  status :: string
  paymentStatus :: string
  paymentMethod :: string
  paymentInfo :: "paymentDetails option"
  billingAddress :: address
  shippingAddress :: address
  order_notes :: "string option"
  tracking :: tracking
  downloads :: "download list"
  refund :: "refund option"
  createdAt :: "date option"
  updatedAt :: "date option"

subsection \<open>The host runtime and the store\<close>

record runtime =
  getFullYear :: "date \<Rightarrow> nat"
  getMonth :: "date \<Rightarrow> nat"
  getDate :: "date \<Rightarrow> nat"
  mkDate :: "nat \<Rightarrow> nat \<Rightarrow> nat \<Rightarrow> date"
  isEmail :: "string \<Rightarrow> bool"

datatype store_error = CastError | ValidationError | DuplicateKey

text \<open>A query by \<open>_id\<close>. A document read from the collection is not new.\<close>

definition findById_raw :: "order list \<Rightarrow> objectId \<Rightarrow> order option" where
  "findById_raw db i = map_option (\<lambda>x. x\<lparr>isNew := False\<rparr>) (find (\<lambda>x. oid x = i) db)"

text \<open>\<open>Order.findById(id)\<close> with an id taken from the request: the string is cast; a
  string that is not an ObjectId raises a cast error, otherwise the document with that
  ObjectId (if any) is returned.\<close>

definition Order_findById :: "order list \<Rightarrow> string \<Rightarrow> store_error + order option" where
  "Order_findById db i =
     (case castObjectId i of None \<Rightarrow> Inl CastError | Some k \<Rightarrow> Inr (findById_raw db k))"

definition Design_findById :: "design list \<Rightarrow> string \<Rightarrow> store_error + design option" where
  "Design_findById ds i =
     (case castObjectId i of
        None \<Rightarrow> Inl CastError
      | Some k \<Rightarrow> Inr (find (\<lambda>d. design_id d = k) ds))"

text \<open>\<open>countDocuments({createdAt: {$gte: lo, $lt: hi}})\<close>.\<close>

definition countDocuments :: "order list \<Rightarrow> date \<Rightarrow> date \<Rightarrow> nat" where
  "countDocuments db lo hi =
     length (filter (\<lambda>x. case createdAt x of None \<Rightarrow> False | Some t \<Rightarrow> lo \<le> t \<and> t < hi) db)"

subsection \<open>The order model: \<open>pre('save')\<close>, \<open>save\<close> and the methods\<close>

text \<open>The hook that generates the order number. It runs on every save and acts only on
  a new document.\<close>

definition pre_save :: "runtime \<Rightarrow> date \<Rightarrow> order list \<Rightarrow> order \<Rightarrow> order" where
  "pre_save rt now db this =
     (if isNew this then
        (let date = now;
             year = slice_last 2 (toString (getFullYear rt date));
             month = padStart 2 CHR ''0'' (toString (getMonth rt date + 1));
             day = padStart 2 CHR ''0'' (toString (getDate rt date));
             todayStart = mkDate rt (getFullYear rt date) (getMonth rt date) (getDate rt date);
             todayEnd = mkDate rt (getFullYear rt date) (getMonth rt date) (getDate rt date + 1);
             orderCount = countDocuments db todayStart todayEnd;
             sequence = padStart 3 CHR ''0'' (toString (orderCount + 1))
         in this\<lparr>orderNumber := Some (''ORD'' @ year @ month @ day @ sequence)\<rparr>)
      else this)"

text \<open>The schema option \<open>timestamps: true\<close>: the store stamps \<open>createdAt\<close> on the first
  save and \<open>updatedAt\<close> on every save. (The object mapper sends no write, and no stamp,
  for a document in which no path was changed; the model does not track changed paths
  and stamps every save.)\<close>

definition stamp :: "date \<Rightarrow> order \<Rightarrow> order" where
  "stamp now this =
     this\<lparr>createdAt := (if isNew this then Some now else createdAt this), updatedAt := Some now\<rparr>"

text \<open>The write of an existing document: the stored document with this \<open>_id\<close> is
  replaced (\<open>updateOne\<close> by \<open>_id\<close>); without one, nothing changes.\<close>

fun updateOne :: "objectId \<Rightarrow> order \<Rightarrow> order list \<Rightarrow> order list" where
  "updateOne i doc [] = []"
| "updateOne i doc (x # xs) = (if oid x = i then doc # xs else x # updateOne i doc xs)"

text \<open>The validation of a document against the schema: the required path
  \<open>orderNumber\<close> is defined, and \<open>status\<close>, \<open>paymentStatus\<close>, \<open>paymentMethod\<close> and
  each item's \<open>license\<close> are values of their enumerations. (The other required paths
  are always defined in a document of this model.)\<close>

definition schema_valid :: "order \<Rightarrow> bool" where
  "schema_valid this =
     (orderNumber this \<noteq> None
      \<and> status this \<in> set [''pending'', ''processing'', ''completed'', ''cancelled'', ''refunded'']
      \<and> paymentStatus this \<in> set [''pending'', ''paid'', ''failed'', ''refunded'']
      \<and> paymentMethod this \<in> set [''stripe'', ''paypal'', ''bank-transfer'', ''crypto'']
      \<and> list_all (\<lambda>item. license item \<in> set [''personal'', ''commercial'', ''exclusive''])
            (items this))"

text \<open>\<open>document.save()\<close>. The object mapper validates the document before it runs the
  hooks that the schema registers with \<open>pre('save')\<close>: a new document that fails the
  validation is rejected, and neither the hook nor the write takes place. Otherwise the
  hook runs, then a new document is inserted and an old one is written over the stored
  document of the same \<open>_id\<close>. The insertion fails on the unique indexes (\<open>_id\<close>, and
  \<open>orderNumber\<close> by \<open>unique: true\<close>). For a document read from the collection the
  validation is not repeated in the model: it satisfies the schema, and the routes
  assign to it only values that their own validators or the methods fix within the
  schema's enumerations.\<close>

definition save :: "runtime \<Rightarrow> date \<Rightarrow> order list \<Rightarrow> order \<Rightarrow> store_error + (order list \<times> order)" where
  "save rt now db this =
     (if isNew this \<and> \<not> schema_valid this then Inl ValidationError
      else
        (let doc = pre_save rt now db (stamp now this) in
         if isNew this then
           (if list_ex (\<lambda>x. oid x = oid doc \<or> orderNumber x = orderNumber doc) db
            then Inl DuplicateKey
            else Inr (db @ [doc\<lparr>isNew := False\<rparr>], doc\<lparr>isNew := False\<rparr>))
         else Inr (updateOne (oid doc) doc db, doc)))"

definition calculateTotals :: "order \<Rightarrow> order" where
  "calculateTotals this =
     (let sub = foldl (\<lambda>sum item. sum + price item * of_int (quantity item)) 0 (items this)
      in this\<lparr>subtotal := sub, total := sub + tax this\<rparr>)"

text \<open>The in-memory part of \<open>addTrackingUpdate\<close>, and the method itself, which saves.\<close>

definition pushTrackingUpdate :: "date \<Rightarrow> string \<Rightarrow> string option \<Rightarrow> string option \<Rightarrow> order \<Rightarrow> order" where
  "pushTrackingUpdate now st loc descr this =
     this\<lparr>tracking := (tracking this)
       \<lparr>updates := updates (tracking this) @
           [\<lparr>update_status = st, location = loc, timestamp = now, description = descr\<rparr>],
        tracking_status := Some st\<rparr>\<rparr>"

definition addTrackingUpdate ::
  "runtime \<Rightarrow> date \<Rightarrow> order list \<Rightarrow> string \<Rightarrow> string option \<Rightarrow> string option \<Rightarrow> order
     \<Rightarrow> store_error + (order list \<times> order)" where
  "addTrackingUpdate rt now db st loc descr this =
     save rt now db (pushTrackingUpdate now st loc descr this)"

text \<open>The in-memory part of \<open>processRefund\<close>, and the method itself, which saves.\<close>

definition setRefund :: "date \<Rightarrow> jsnum \<Rightarrow> string \<Rightarrow> objectId \<Rightarrow> order \<Rightarrow> order" where
  "setRefund now amt rsn procBy this =
     this\<lparr>refund := Some \<lparr>amount = amt, reason = rsn, processedAt = now, processedBy = procBy\<rparr>,
          status := ''refunded'',
          paymentStatus := ''refunded''\<rparr>"

definition processRefund ::
  "runtime \<Rightarrow> date \<Rightarrow> order list \<Rightarrow> jsnum \<Rightarrow> string \<Rightarrow> objectId \<Rightarrow> order
     \<Rightarrow> store_error + (order list \<times> order)" where
  "processRefund rt now db amt rsn procBy this =
     save rt now db (setRefund now amt rsn procBy this)"

subsection \<open>Requests and responses\<close>

record create_item =
  item_design :: string
  item_quantity :: int
  item_license :: string

record create_body =
  body_items :: "create_item list"
  body_paymentMethod :: string
  body_billingAddress :: "address option"
  body_shippingAddress :: "address option"
  body_notes :: "string option"

record status_body =
  body_status :: string
  body_paymentStatus :: "string option"

record tracking_body =
  tbody_status :: string
  tbody_location :: "string option"
  tbody_description :: "string option"

record refund_body =
  body_amount :: "jsnum option"
  body_reason :: "string option"

datatype body =
    Errors "string list"
  | Message string
  | MessageOrder string "order option"

datatype response = Response (http_status: nat) (json: body)

subsection \<open>\<open>POST /api/orders\<close>\<close>

definition validate_create :: "runtime \<Rightarrow> create_body \<Rightarrow> string list" where
  "validate_create rt b =
     (if body_items b \<noteq> [] then [] else [''At least one item is required'']) @
     concat (map (\<lambda>i. if isMongoId (item_design i) then [] else [''Invalid design ID'']) (body_items b)) @
     concat (map (\<lambda>i. if 1 \<le> item_quantity i then [] else [''Quantity must be at least 1'']) (body_items b)) @
     concat (map (\<lambda>i. if item_license i \<in> set [''personal'', ''commercial'', ''exclusive'']
                        then [] else [''Invalid license type'']) (body_items b)) @
     (if body_paymentMethod b \<in> set [''stripe'', ''paypal'', ''bank-transfer'', ''crypto'']
      then [] else [''Invalid payment method'']) @
     (case body_billingAddress b of
        None \<Rightarrow> [''Billing address is required'', ''Billing name is required'',
                 ''Valid billing email is required'']
      | Some a \<Rightarrow>
          (case name a of
             None \<Rightarrow> [''Billing name is required'']
           | Some n \<Rightarrow> if n \<noteq> [] then [] else [''Billing name is required'']) @
          (case email a of
             None \<Rightarrow> [''Valid billing email is required'']
           | Some e \<Rightarrow> if isEmail rt e then [] else [''Valid billing email is required'']))"

text \<open>The loop over the items of the request: it resolves each design, leaves with a
  response at the first design that is missing or not published, and otherwise
  accumulates the order items and the subtotal.\<close>

fun resolve_items ::
  "design list \<Rightarrow> create_item list \<Rightarrow> order_item list \<Rightarrow> jsnum
     \<Rightarrow> response + (order_item list \<times> jsnum)" where
  "resolve_items ds [] orderItems sub = Inr (orderItems, sub)"
| "resolve_items ds (item # rest) orderItems sub =
     (case Design_findById ds (item_design item) of
        Inl e \<Rightarrow> Inl (Response 500 (Message ''Server error''))
      | Inr None \<Rightarrow>
          Inl (Response 400 (Message (''Design with ID '' @ item_design item @ '' not found'')))
      | Inr (Some d) \<Rightarrow>
          if design_status d \<noteq> ''published'' then
            Inl (Response 400 (Message (''Design '' @ title d @ '' is not available for purchase'')))
          else
            (let itemTotal = design_price d * of_int (item_quantity item)
             in resolve_items ds rest
                  (orderItems @ [\<lparr>design = design_id d, quantity = item_quantity item,
                                  price = design_price d, license = item_license item\<rparr>])
                  (sub + itemTotal)))"

definition empty_address :: address where
  "empty_address = \<lparr>name = None, email = None, phone = None, street = None, city = None,
                     state = None, zipCode = None, country = None\<rparr>"

text \<open>\<open>new Order({...})\<close> with the schema defaults.\<close>

definition new_Order ::
  "objectId \<Rightarrow> objectId \<Rightarrow> order_item list \<Rightarrow> jsnum \<Rightarrow> jsnum \<Rightarrow> jsnum \<Rightarrow> string
     \<Rightarrow> address \<Rightarrow> address \<Rightarrow> string option \<Rightarrow> order" where
  "new_Order new_id cust orderItems sub tx tot method billing shipping nts =
     \<lparr>oid = new_id, isNew = True, orderNumber = None, customer = cust, items = orderItems,
      subtotal = sub, tax = tx, total = tot, currency = ''USD'', status = ''pending'',
      paymentStatus = ''pending'', paymentMethod = method, paymentInfo = None,
      billingAddress = billing, shippingAddress = shipping, order_notes = nts,
      tracking = \<lparr>number = None, carrier = None, tracking_status = None, updates = []\<rparr>,
      downloads = [], refund = None, createdAt = None, updatedAt = None\<rparr>"

definition taxRate :: jsnum where
  "taxRate = 85 / 1000"

text \<open>The handler. \<open>new_id\<close> is the ObjectId the object mapper gives the new document.\<close>

definition POST_orders ::
  "runtime \<Rightarrow> date \<Rightarrow> objectId \<Rightarrow> objectId \<Rightarrow> design list \<Rightarrow> order list \<Rightarrow> create_body
     \<Rightarrow> response \<times> order list" where
  "POST_orders rt now new_id user ds db b =
     (let errors = validate_create rt b in
      if errors \<noteq> [] then (Response 400 (Errors errors), db)
      else
        (case resolve_items ds (body_items b) [] 0 of
           Inl r \<Rightarrow> (r, db)
         | Inr (orderItems, sub) \<Rightarrow>
             (let tx = sub * taxRate;
                  tot = sub + tx;
                  billing = (case body_billingAddress b of Some a \<Rightarrow> a | None \<Rightarrow> empty_address);
                  ord = new_Order new_id user orderItems sub tx tot (body_paymentMethod b) billing
                          (case body_shippingAddress b of Some a \<Rightarrow> a | None \<Rightarrow> billing)
                          (body_notes b)
              in case save rt now db ord of
                   Inl e \<Rightarrow> (Response 500 (Message ''Server error''), db)
                 | Inr (db', saved) \<Rightarrow>
                     (Response 201 (MessageOrder ''Order created successfully''
                                      (findById_raw db' (oid saved))), db'))))"

subsection \<open>\<open>PUT /api/orders/:id/status\<close>\<close>

definition validate_status :: "status_body \<Rightarrow> string list" where
  "validate_status b =
     (if body_status b \<in> set [''pending'', ''processing'', ''completed'', ''cancelled'', ''refunded'']
      then [] else [''Invalid status'']) @
     (case body_paymentStatus b of
        None \<Rightarrow> []
      | Some p \<Rightarrow> if p \<in> set [''pending'', ''paid'', ''failed'', ''refunded'']
                  then [] else [''Invalid payment status''])"

text \<open>What the \<open>catch\<close> block of the handlers on one order answers.\<close>

definition on_error :: "store_error \<Rightarrow> response" where
  "on_error e = (case e of CastError \<Rightarrow> Response 404 (Message ''Order not found'')
                         | ValidationError \<Rightarrow> Response 500 (Message ''Server error'')
                         | DuplicateKey \<Rightarrow> Response 500 (Message ''Server error''))"

definition PUT_status ::
  "runtime \<Rightarrow> date \<Rightarrow> order list \<Rightarrow> string \<Rightarrow> status_body \<Rightarrow> response \<times> order list" where
  "PUT_status rt now db i b =
     (let errors = validate_status b in
      if errors \<noteq> [] then (Response 400 (Errors errors), db)
      else
        (case Order_findById db i of
           Inl e \<Rightarrow> (on_error e, db)
         | Inr None \<Rightarrow> (Response 404 (Message ''Order not found''), db)
         | Inr (Some ord) \<Rightarrow>
             (let ord1 = ord\<lparr>status := body_status b\<rparr>;
                  ord2 = (case body_paymentStatus b of
                            None \<Rightarrow> ord1
                          | Some p \<Rightarrow> if p \<noteq> [] then ord1\<lparr>paymentStatus := p\<rparr> else ord1)
              in case save rt now db ord2 of
                   Inl e \<Rightarrow> (on_error e, db)
                 | Inr (db', saved) \<Rightarrow>
                     (Response 200 (MessageOrder ''Order status updated successfully''
                                      (findById_raw db' (oid saved))), db'))))"

subsection \<open>\<open>POST /api/orders/:id/tracking\<close>\<close>

definition validate_tracking :: "tracking_body \<Rightarrow> string list" where
  "validate_tracking b = (if tbody_status b \<noteq> [] then [] else [''Tracking status is required''])"

definition POST_tracking ::
  "runtime \<Rightarrow> date \<Rightarrow> order list \<Rightarrow> string \<Rightarrow> tracking_body \<Rightarrow> response \<times> order list" where
  "POST_tracking rt now db i b =
     (let errors = validate_tracking b in
      if errors \<noteq> [] then (Response 400 (Errors errors), db)
      else
        (case Order_findById db i of
           Inl e \<Rightarrow> (on_error e, db)
         | Inr None \<Rightarrow> (Response 404 (Message ''Order not found''), db)
         | Inr (Some ord) \<Rightarrow>
             (case addTrackingUpdate rt now db (tbody_status b)
                     (map_option trim (tbody_location b)) (map_option trim (tbody_description b)) ord of
                Inl e \<Rightarrow> (on_error e, db)
              | Inr (db', saved) \<Rightarrow>
                  (Response 200 (Message ''Tracking update added successfully''), db'))))"

subsection \<open>\<open>POST /api/orders/:id/refund\<close>\<close>

text \<open>The validators of the refund route: \<open>isFloat({min: 0})\<close> on the amount and
  \<open>notEmpty()\<close> on the reason. With no error the handler reads both fields.\<close>

definition validate_refund :: "refund_body \<Rightarrow> string list + (jsnum \<times> string)" where
  "validate_refund b =
     (let errors =
        (case body_amount b of
           None \<Rightarrow> [''Refund amount must be a positive number'']
         | Some a \<Rightarrow> if 0 \<le> a then [] else [''Refund amount must be a positive number'']) @
        (case body_reason b of
           None \<Rightarrow> [''Refund reason is required'']
         | Some r \<Rightarrow> if r \<noteq> [] then [] else [''Refund reason is required''])
      in case (errors, body_amount b, body_reason b) of
           ([], Some a, Some r) \<Rightarrow> Inr (a, r)
         | _ \<Rightarrow> Inl errors)"

definition POST_refund ::
  "runtime \<Rightarrow> date \<Rightarrow> objectId \<Rightarrow> order list \<Rightarrow> string \<Rightarrow> refund_body \<Rightarrow> response \<times> order list" where
  "POST_refund rt now user db i b =
     (case validate_refund b of
        Inl errors \<Rightarrow> (Response 400 (Errors errors), db)
      | Inr (amt, rsn) \<Rightarrow>
          (case Order_findById db i of
             Inl e \<Rightarrow> (on_error e, db)
           | Inr None \<Rightarrow> (Response 404 (Message ''Order not found''), db)
           | Inr (Some ord) \<Rightarrow>
               if amt > total ord then
                 (Response 400 (Message ''Refund amount cannot exceed order total''), db)
               else
                 (case processRefund rt now db amt rsn user ord of
                    Inl e \<Rightarrow> (on_error e, db)
                  | Inr (db', saved) \<Rightarrow>
                      (Response 200 (Message ''Refund processed successfully''), db'))))"

subsection \<open>Notions used in the statements\<close>

text \<open>The window of the hook's count, the sequence number and the string the hook
  assembles, named so that the statements can refer to them (\<open>pre_save_new\<close> below
  shows that the hook computes exactly this string).\<close>

definition todayStart :: "runtime \<Rightarrow> date \<Rightarrow> date" where
  "todayStart rt date = mkDate rt (getFullYear rt date) (getMonth rt date) (getDate rt date)"

definition todayEnd :: "runtime \<Rightarrow> date \<Rightarrow> date" where
  "todayEnd rt date = mkDate rt (getFullYear rt date) (getMonth rt date) (getDate rt date + 1)"

definition sequence_of :: "runtime \<Rightarrow> date \<Rightarrow> order list \<Rightarrow> nat" where
  "sequence_of rt now db = countDocuments db (todayStart rt now) (todayEnd rt now) + 1"

definition generated_number :: "runtime \<Rightarrow> date \<Rightarrow> order list \<Rightarrow> string" where
  "generated_number rt now db =
     ''ORD'' @ slice_last 2 (toString (getFullYear rt now))
           @ padStart 2 CHR ''0'' (toString (getMonth rt now + 1))
           @ padStart 2 CHR ''0'' (toString (getDate rt now))
           @ padStart 3 CHR ''0'' (toString (sequence_of rt now db))"

text \<open>A design id of a request can be bought: it is an ObjectId, the design exists and
  is published.\<close>

definition purchasable :: "design list \<Rightarrow> string \<Rightarrow> bool" where
  "purchasable ds i =
     (case castObjectId i of
        None \<Rightarrow> False
      | Some k \<Rightarrow>
          (case find (\<lambda>d. design_id d = k) ds of
             None \<Rightarrow> False
           | Some d \<Rightarrow> design_status d = ''published''))"




subsection \<open>A concrete runtime and sample data\<close>

text \<open>An instance of the runtime for the examples: the proleptic Gregorian calendar with
  UTC as the local time zone (day number to civil date and back), and a crude stand-in
  for the e-mail validator.\<close>

definition civil_from_days :: "int \<Rightarrow> int \<times> int \<times> int" where
  "civil_from_days z =
     (let z1 = z + 719468;
          era = z1 div 146097;
          doe = z1 - era * 146097;
          yoe = (doe - doe div 1460 + doe div 36524 - doe div 146096) div 365;
          doy = doe - (365 * yoe + yoe div 4 - yoe div 100);
          mp = (5 * doy + 2) div 153;
          d = doy - (153 * mp + 2) div 5 + 1;
          m = (if mp < 10 then mp + 3 else mp - 9)
      in (yoe + era * 400 + (if m \<le> 2 then 1 else 0), m, d))"

definition days_from_civil :: "int \<Rightarrow> int \<Rightarrow> int \<Rightarrow> int" where
  "days_from_civil y m d =
     (let y1 = y - (if m \<le> 2 then 1 else 0);
          era = y1 div 400;
          yoe = y1 - era * 400;
          doy = (153 * (if m > 2 then m - 3 else m + 9) + 2) div 5 + d - 1;
          doe = yoe * 365 + yoe div 4 - yoe div 100 + doy
      in era * 146097 + doe - 719468)"

definition utc_runtime :: runtime where
  "utc_runtime =
     \<lparr>getFullYear = (\<lambda>t. nat (fst (civil_from_days (t div 86400000)))),
      getMonth = (\<lambda>t. nat (fst (snd (civil_from_days (t div 86400000))) - 1)),
      getDate = (\<lambda>t. nat (snd (snd (civil_from_days (t div 86400000))))),
      mkDate = (\<lambda>y m d. 86400000 * days_from_civil (int y) (int m + 1) (int d)),
      isEmail = (\<lambda>s. CHR ''@'' \<in> set s)\<rparr>"

text \<open>2025-01-15 10:00:00 UTC and one minute later.\<close>

definition t_morning :: date where
  "t_morning = 1736935200000"

definition t_later :: date where
  "t_later = 1736935260000"

definition design_A :: design where
  "design_A = \<lparr>design_id = ''64b000000000000000000a01'', title = ''Modern Villa 2D Plan'',
                design_price = 100, design_status = ''published''\<rparr>"

definition design_B :: design where
  "design_B = \<lparr>design_id = ''64b000000000000000000a02'', title = ''Loft 3D Model'',
                design_price = 50, design_status = ''published''\<rparr>"

definition design_draft :: design where
  "design_draft = \<lparr>design_id = ''64b000000000000000000a03'', title = ''Unfinished Tower'',
                    design_price = 75, design_status = ''draft''\<rparr>"

definition catalog :: "design list" where
  "catalog = [design_A, design_B, design_draft]"

definition alice_address :: address where
  "alice_address = empty_address\<lparr>name := Some ''Alice'', email := Some ''alice@example.com''\<rparr>"

text \<open>The cart of the end-to-end example: design A once, design B twice.\<close>

definition cart_AB :: create_body where
  "cart_AB =
     \<lparr>body_items = [\<lparr>item_design = ''64b000000000000000000a01'', item_quantity = 1,
                      item_license = ''personal''\<rparr>,
                    \<lparr>item_design = ''64b000000000000000000a02'', item_quantity = 2,
                      item_license = ''commercial''\<rparr>],
      body_paymentMethod = ''stripe'', body_billingAddress = Some alice_address,
      body_shippingAddress = None, body_notes = None\<rparr>"

text \<open>A cart with a design that is not in the catalog, and one with a draft (its id
  written in upper case).\<close>

definition cart_missing :: create_body where
  "cart_missing =
     cart_AB\<lparr>body_items := [\<lparr>item_design = ''64b000000000000000000a09'', item_quantity = 1,
                                item_license = ''personal''\<rparr>]\<rparr>"

definition cart_draft :: create_body where
  "cart_draft =
     cart_AB\<lparr>body_items := [\<lparr>item_design = ''64b000000000000000000a01'', item_quantity = 1,
                                item_license = ''personal''\<rparr>,
                              \<lparr>item_design = ''64B000000000000000000A03'', item_quantity = 1,
                                item_license = ''personal''\<rparr>]\<rparr>"

text \<open>A cart whose design id carries the prefix \<open>0x\<close>: 24 characters that
  \<open>isMongoId\<close> accepts and that are not an ObjectId.\<close>

definition cart_prefixed :: create_body where
  "cart_prefixed =
     cart_AB\<lparr>body_items := [\<lparr>item_design = ''0x64b00000000000000000a1'', item_quantity = 1,
                                item_license = ''personal''\<rparr>]\<rparr>"

definition alice :: objectId where
  "alice = ''64b0000000000000000000c1''"

definition admin :: objectId where
  "admin = ''64b0000000000000000000ad''"

definition order_id :: objectId where
  "order_id = ''64b0000000000000000000f1''"

text \<open>The order of the end-to-end example as the store holds it.\<close>

definition order_AB :: order where
  "order_AB =
     (new_Order order_id alice
        [\<lparr>design = ''64b000000000000000000a01'', quantity = 1, price = 100, license = ''personal''\<rparr>,
         \<lparr>design = ''64b000000000000000000a02'', quantity = 2, price = 50, license = ''commercial''\<rparr>]
        200 17 217 ''stripe'' alice_address alice_address None)
     \<lparr>isNew := False, orderNumber := Some ''ORD250115001'',
      createdAt := Some t_morning, updatedAt := Some t_morning\<rparr>"

text \<open>A day's collection: \<open>n\<close> orders created on 2025-01-15, numbered \<open>1\<close> to \<open>n\<close>.\<close>

definition nth_order :: "nat \<Rightarrow> order" where
  "nth_order k =
     order_AB\<lparr>oid := padStart 24 CHR ''0'' (toString k),
              orderNumber := Some (''ORD250115'' @ padStart 3 CHR ''0'' (toString (k + 1))),
              createdAt := Some (1736899200000 + int k), updatedAt := Some (1736899200000 + int k)\<rparr>"

definition day_orders :: "nat \<Rightarrow> order list" where
  "day_orders n = map nth_order [0..<n]"


definition refund_excess :: refund_body where
  "refund_excess = \<lparr>body_amount = Some 300, body_reason = Some ''goodwill''\<rparr>"

definition refund_zero :: refund_body where
  "refund_zero = \<lparr>body_amount = Some 0, body_reason = Some ''goodwill''\<rparr>"








text \<open>The document that \<open>new Order\<close> builds for the example cart.\<close>

definition fresh_order :: "objectId \<Rightarrow> order" where
  "fresh_order i =
     new_Order i alice
        [\<lparr>design = ''64b000000000000000000a01'', quantity = 1, price = 100, license = ''personal''\<rparr>,
         \<lparr>design = ''64b000000000000000000a02'', quantity = 2, price = 50, license = ''commercial''\<rparr>]
        200 17 217 ''stripe'' alice_address alice_address None"

section \<open>Properties\<close>

subsection \<open>Decimal strings\<close>

lemma digit_eval:
  "digit 0 = CHR ''0''" "digit 1 = CHR ''1''" "digit (Suc 0) = CHR ''1''" "digit 2 = CHR ''2''"
  "digit 3 = CHR ''3''" "digit 4 = CHR ''4''" "digit 5 = CHR ''5''" "digit 6 = CHR ''6''"
  "digit 7 = CHR ''7''" "digit 8 = CHR ''8''" "digit 9 = CHR ''9''"
  unfolding digit_def by code_simp+

lemma below_ten: "d < 10 \<Longrightarrow> d = 0 \<or> d = 1 \<or> d = 2 \<or> d = 3 \<or> d = 4 \<or> d = 5 \<or> d = 6 \<or> d = 7 \<or> d = 8 \<or> d = (9::nat)"
  by arith

lemma isDigit_digit: "d < 10 \<Longrightarrow> isDigit (digit d)"
  using below_ten [of d] by (auto simp: digit_eval isDigit_def)

lemma digit_value_digit: "d < 10 \<Longrightarrow> digit_value (digit d) = d"
  by (simp add: digit_def digit_value_def)

lemma toString_unfold: "10 \<le> n \<Longrightarrow> toString n = toString (n div 10) @ [digit (n mod 10)]"
  by (subst toString.simps) simp

lemma toString_small: "n < 10 \<Longrightarrow> toString n = [digit n]"
  by (subst toString.simps) simp

lemma toString_digits: "list_all isDigit (toString n)"
proof (induction n rule: toString.induct)
  case (1 n)
  show ?case
  proof (cases "n < 10")
    case True
    then show ?thesis by (simp add: toString_small isDigit_digit)
  next
    case False
    with 1 show ?thesis by (simp add: toString_unfold isDigit_digit)
  qed
qed

lemma parseDigits_snoc: "parseDigits (s @ [c]) = 10 * parseDigits s + digit_value c"
  by (simp add: parseDigits_def)

lemma parseDigits_single: "parseDigits [c] = digit_value c"
  by (simp add: parseDigits_def)

lemma parseDigits_toString: "parseDigits (toString n) = n"
proof (induction n rule: toString.induct)
  case (1 n)
  show ?case
  proof (cases "n < 10")
    case True
    then show ?thesis by (simp add: toString_small parseDigits_single digit_value_digit)
  next
    case False
    with 1 have "parseDigits (toString (n div 10)) = n div 10" by simp
    with False show ?thesis
      by (simp add: toString_unfold parseDigits_snoc digit_value_digit)
  qed
qed

lemma length_toString_pos: "1 \<le> length (toString n)"
  by (cases "n < 10") (simp_all add: toString_small toString_unfold)

lemma length_toString_1: "n < 10 \<Longrightarrow> length (toString n) = 1"
  by (simp add: toString_small)

lemma length_toString_2: "10 \<le> n \<Longrightarrow> n < 100 \<Longrightarrow> length (toString n) = 2"
  by (simp add: toString_unfold length_toString_1)

lemma length_toString_3: "100 \<le> n \<Longrightarrow> n < 1000 \<Longrightarrow> length (toString n) = 3"
proof -
  assume h: "100 \<le> n" "n < 1000"
  then have "10 \<le> n div 10" "n div 10 < 100" by simp_all
  then have "length (toString (n div 10)) = 2" by (rule length_toString_2)
  moreover from h have "toString n = toString (n div 10) @ [digit (n mod 10)]"
    by (simp add: toString_unfold)
  ultimately show ?thesis by simp
qed

lemma length_toString_4: "1000 \<le> n \<Longrightarrow> 4 \<le> length (toString n)"
proof -
  assume h: "1000 \<le> n"
  then have a: "toString n = toString (n div 10) @ [digit (n mod 10)]" by (simp add: toString_unfold)
  from h have b: "toString (n div 10) = toString (n div 10 div 10) @ [digit (n div 10 mod 10)]"
    by (simp add: toString_unfold)
  from h have c: "toString (n div 10 div 10) = toString (n div 10 div 10 div 10) @ [digit (n div 10 div 10 mod 10)]"
    by (simp add: toString_unfold)
  show ?thesis using length_toString_pos [of "n div 10 div 10 div 10"] by (simp add: a b c)
qed

lemma length_padStart: "length (padStart k c s) = max k (length s)"
  by (simp add: padStart_def)

lemma padStart_digits: "list_all isDigit s \<Longrightarrow> list_all isDigit (padStart k CHR ''0'' s)"
proof -
  have z: "isDigit CHR ''0''" by (simp add: isDigit_def)
  assume "list_all isDigit s"
  with z show ?thesis by (auto simp: padStart_def list_all_iff)
qed

lemma parseDigits_zeros: "foldl (\<lambda>a c. 10 * a + digit_value c) 0 (replicate k CHR ''0'') = 0"
  by (induction k) (simp_all add: digit_value_def)

lemma parseDigits_padStart: "parseDigits (padStart k CHR ''0'' s) = parseDigits s"
  by (simp add: padStart_def parseDigits_def parseDigits_zeros)

lemma slice_last_append: "k \<le> length s \<Longrightarrow> slice_last k (xs @ s) = slice_last k s"
  by (simp add: slice_last_def)

lemma slice_last_all: "length s \<le> k \<Longrightarrow> slice_last k s = s"
  by (simp add: slice_last_def)

lemma slice_last_digits: "list_all isDigit s \<Longrightarrow> list_all isDigit (slice_last k s)"
  by (auto simp: slice_last_def list_all_iff dest: in_set_dropD)

lemma length_slice_last: "length (slice_last k s) = min k (length s)"
  by (simp add: slice_last_def)

lemma year_two_digits:
  assumes "10 \<le> y"
  shows "slice_last 2 (toString y) = [digit (y div 10 mod 10), digit (y mod 10)]"
proof (cases "y div 10 < 10")
  case True
  with assms show ?thesis by (simp add: toString_unfold toString_small slice_last_def)
next
  case False
  with assms show ?thesis by (simp add: toString_unfold slice_last_def)
qed

lemma parse_year: "10 \<le> y \<Longrightarrow> parseDigits (slice_last 2 (toString y)) = y mod 100"
  using mod_mult2_eq [of y 10 10] by (simp add: year_two_digits parseDigits_def digit_value_digit)

lemma matches_ORD: "list_all isDigit ds \<Longrightarrow> 8 \<le> length ds \<Longrightarrow> matches_ORD_d8 (''ORD'' @ ds)"
  by (auto simp: matches_here_def list_all_iff dest: in_set_takeD)

subsection \<open>The store\<close>

lemma find_updateOne:
  "find (\<lambda>x. oid x = i) db = Some x \<Longrightarrow> oid d = i \<Longrightarrow>
   find (\<lambda>x. oid x = i) (updateOne i d db) = Some d"
  by (induction db) (auto split: if_splits)

lemma find_updateOne_other:
  "j \<noteq> i \<Longrightarrow> oid d = i \<Longrightarrow>
   find (\<lambda>x. oid x = j) (updateOne i d db) = find (\<lambda>x. oid x = j) db"
  by (induction db) auto

lemma map_oid_updateOne: "oid d = i \<Longrightarrow> map oid (updateOne i d db) = map oid db"
  by (induction db) auto

lemma length_updateOne: "length (updateOne i d db) = length db"
  by (induction db) auto

lemma map_orderNumber_updateOne:
  "find (\<lambda>x. oid x = i) db = Some x \<Longrightarrow> orderNumber d = orderNumber x \<Longrightarrow>
   map orderNumber (updateOne i d db) = map orderNumber db"
  by (induction db) (auto split: if_splits)

lemma find_oid: "find (\<lambda>x. oid x = i) db = Some x \<Longrightarrow> oid x = i"
  by (induction db) (auto split: if_splits)

lemma findById_raw_Some:
  "findById_raw db i = Some ord \<Longrightarrow>
   oid ord = i \<and> \<not> isNew ord \<and> (\<exists>x. find (\<lambda>x. oid x = i) db = Some x \<and> ord = x\<lparr>isNew := False\<rparr>)"
  by (auto simp: findById_raw_def dest: find_oid)

lemma Order_findById_Some:
  "Order_findById db i = Inr (Some ord) \<Longrightarrow>
   \<exists>k. castObjectId i = Some k \<and> findById_raw db k = Some ord"
  by (auto simp: Order_findById_def split: option.splits)

lemma Order_findById_cast:
  "castObjectId i = Some k \<Longrightarrow> Order_findById db i = Inr (findById_raw db k)"
  by (simp add: Order_findById_def)

lemma save_existing:
  "\<not> isNew this \<Longrightarrow>
   save rt now db this =
     Inr (updateOne (oid this) (this\<lparr>updatedAt := Some now\<rparr>) db, this\<lparr>updatedAt := Some now\<rparr>)"
  by (simp add: save_def pre_save_def stamp_def Let_def)

lemma save_fetched:
  assumes "findById_raw db i = Some ord" and "oid this = i" and "\<not> isNew this"
  shows "\<exists>db'. save rt now db this = Inr (db', this\<lparr>updatedAt := Some now\<rparr>)
           \<and> findById_raw db' i = Some (this\<lparr>updatedAt := Some now\<rparr>)
           \<and> (\<forall>j. j \<noteq> i \<longrightarrow> findById_raw db' j = findById_raw db j)
           \<and> map oid db' = map oid db
           \<and> (orderNumber this = orderNumber ord \<longrightarrow> map orderNumber db' = map orderNumber db)"
proof -
  let ?d = "this\<lparr>updatedAt := Some now\<rparr>"
  let ?db = "updateOne i ?d db"
  from assms(1) obtain x where x: "find (\<lambda>x. oid x = i) db = Some x" "ord = x\<lparr>isNew := False\<rparr>"
    using findById_raw_Some by blast
  have s: "save rt now db this = Inr (?db, ?d)"
    using assms(2,3) by (simp add: save_existing)
  have f: "find (\<lambda>x. oid x = i) ?db = Some ?d"
    using x(1) assms(2) by (intro find_updateOne) simp_all
  have g: "findById_raw ?db i = Some ?d"
    using assms(3) by (simp add: findById_raw_def f)
  have h: "\<forall>j. j \<noteq> i \<longrightarrow> findById_raw ?db j = findById_raw db j"
    using assms(2) by (simp add: findById_raw_def find_updateOne_other)
  have m: "map oid ?db = map oid db"
    using assms(2) by (simp add: map_oid_updateOne)
  have n: "orderNumber this = orderNumber ord \<longrightarrow> map orderNumber ?db = map orderNumber db"
    using x by (auto intro: map_orderNumber_updateOne)
  from s g h m n show ?thesis by blast
qed

subsection \<open>Refunds\<close>

lemma fetched_facts:
  "Order_findById db i = Inr (Some ord) \<Longrightarrow>
   castObjectId i = Some (oid ord) \<and> findById_raw db (oid ord) = Some ord \<and> \<not> isNew ord"
proof -
  assume "Order_findById db i = Inr (Some ord)"
  then obtain k where k: "castObjectId i = Some k" "findById_raw db k = Some ord"
    using Order_findById_Some by blast
  from k(2) have "oid ord = k" "\<not> isNew ord" using findById_raw_Some by blast+
  with k show ?thesis by simp
qed

lemma processRefund_fetched:
  assumes "Order_findById db i = Inr (Some ord)"
  shows "\<exists>db'. processRefund rt now db amt rsn adm ord =
              Inr (db', (setRefund now amt rsn adm ord)\<lparr>updatedAt := Some now\<rparr>)
           \<and> Order_findById db' i = Inr (Some ((setRefund now amt rsn adm ord)\<lparr>updatedAt := Some now\<rparr>))
           \<and> (\<forall>j. j \<noteq> oid ord \<longrightarrow> findById_raw db' j = findById_raw db j)
           \<and> map oid db' = map oid db
           \<and> map orderNumber db' = map orderNumber db"
proof -
  from assms have f: "findById_raw db (oid ord) = Some ord" "\<not> isNew ord"
    and c: "castObjectId i = Some (oid ord)"
    using fetched_facts by blast+
  have "oid (setRefund now amt rsn adm ord) = oid ord" "\<not> isNew (setRefund now amt rsn adm ord)"
    using f by (simp_all add: setRefund_def)
  from save_fetched [OF f(1) this, of rt now]
  obtain db' where
    "save rt now db (setRefund now amt rsn adm ord) =
       Inr (db', (setRefund now amt rsn adm ord)\<lparr>updatedAt := Some now\<rparr>)"
    "findById_raw db' (oid ord) = Some ((setRefund now amt rsn adm ord)\<lparr>updatedAt := Some now\<rparr>)"
    "\<forall>j. j \<noteq> oid ord \<longrightarrow> findById_raw db' j = findById_raw db j"
    "map oid db' = map oid db"
    "orderNumber (setRefund now amt rsn adm ord) = orderNumber ord \<longrightarrow>
       map orderNumber db' = map orderNumber db"
    by blast
  moreover have "orderNumber (setRefund now amt rsn adm ord) = orderNumber ord"
    by (simp add: setRefund_def)
  ultimately show ?thesis
    unfolding processRefund_def Order_findById_cast [OF c] by blast
qed

lemma validate_refund_Inr:
  "validate_refund b = Inr (a, r) \<Longrightarrow> body_amount b = Some a \<and> body_reason b = Some r \<and> 0 \<le> a \<and> r \<noteq> []"
  by (auto simp: validate_refund_def Let_def split: option.splits if_splits list.splits)



text \<open>
  Claim C5. A refund request on an existing order whose amount exceeds the order's
  total is answered with status 400 and leaves the collection exactly as it was (no
  refund record, \<open>status\<close> and \<open>paymentStatus\<close> unmodified): either the validators
  reject the body, or the handler answers
  \<open>Refund amount cannot exceed order total\<close> before it calls \<open>processRefund\<close>.
\<close>
theorem refund_above_total_rejected:
  assumes "Order_findById db i = Inr (Some ord)" and "body_amount b = Some a" and "a > total ord"
  shows "http_status (fst (POST_refund rt now adm db i b)) = 400
      \<and> snd (POST_refund rt now adm db i b) = db
      \<and> fst (POST_refund rt now adm db i b) =
          (case validate_refund b of
             Inl errors \<Rightarrow> Response 400 (Errors errors)
           | Inr v \<Rightarrow> Response 400 (Message ''Refund amount cannot exceed order total''))"
proof (cases "validate_refund b")
  case (Inl errors)
  then show ?thesis by (simp add: POST_refund_def)
next
  case (Inr v)
  obtain x r where v: "v = (x, r)" by (cases v)
  with Inr assms(2) have "x = a" using validate_refund_Inr by fastforce
  with Inr v assms show ?thesis by (simp add: POST_refund_def)
qed

text \<open>The part of claim C9 that the code keeps: a missing or negative amount and a
  missing or empty reason are answered with 400, and nothing is written.\<close>

lemma POST_refund_invalid:
  "body_amount b = None \<or> (\<exists>a. body_amount b = Some a \<and> a < 0)
     \<or> body_reason b = None \<or> body_reason b = Some [] \<Longrightarrow>
   \<exists>errors. errors \<noteq> [] \<and> POST_refund rt now user db i b = (Response 400 (Errors errors), db)"
  by (auto simp: POST_refund_def validate_refund_def Let_def split: option.splits list.splits)

subsection \<open>Tracking and status updates\<close>

lemma addTrackingUpdate_fetched:
  assumes "Order_findById db i = Inr (Some this)"
  shows "\<exists>db'. addTrackingUpdate rt now db st loc descr this =
              Inr (db', (pushTrackingUpdate now st loc descr this)\<lparr>updatedAt := Some now\<rparr>)
           \<and> Order_findById db' i = Inr (Some ((pushTrackingUpdate now st loc descr this)\<lparr>updatedAt := Some now\<rparr>))
           \<and> map orderNumber db' = map orderNumber db"
proof -
  from assms have f: "findById_raw db (oid this) = Some this" "\<not> isNew this"
    and c: "castObjectId i = Some (oid this)"
    using fetched_facts by blast+
  have "oid (pushTrackingUpdate now st loc descr this) = oid this"
       "\<not> isNew (pushTrackingUpdate now st loc descr this)"
    using f by (simp_all add: pushTrackingUpdate_def)
  from save_fetched [OF f(1) this, of rt now]
  obtain db' where
    "save rt now db (pushTrackingUpdate now st loc descr this) =
       Inr (db', (pushTrackingUpdate now st loc descr this)\<lparr>updatedAt := Some now\<rparr>)"
    "findById_raw db' (oid this) = Some ((pushTrackingUpdate now st loc descr this)\<lparr>updatedAt := Some now\<rparr>)"
    "orderNumber (pushTrackingUpdate now st loc descr this) = orderNumber this \<longrightarrow>
       map orderNumber db' = map orderNumber db"
    by blast
  moreover have "orderNumber (pushTrackingUpdate now st loc descr this) = orderNumber this"
    by (simp add: pushTrackingUpdate_def)
  ultimately show ?thesis
    unfolding addTrackingUpdate_def Order_findById_cast [OF c] by auto
qed





lemma PUT_status_ok:
  assumes f: "Order_findById db i = Inr (Some ord)"
    and v: "validate_status b = []"
  shows "\<exists>db' doc. PUT_status rt now db i b =
            (Response 200 (MessageOrder ''Order status updated successfully'' (Some doc)), db')
        \<and> Order_findById db' i = Inr (Some doc)
        \<and> status doc = body_status b
        \<and> paymentStatus doc =
            (case body_paymentStatus b of None \<Rightarrow> paymentStatus ord
             | Some p \<Rightarrow> if p \<noteq> [] then p else paymentStatus ord)
        \<and> orderNumber doc = orderNumber ord
        \<and> map orderNumber db' = map orderNumber db"
proof -
  let ?o1 = "ord\<lparr>status := body_status b\<rparr>"
  let ?o2 = "case body_paymentStatus b of None \<Rightarrow> ?o1
             | Some p \<Rightarrow> if p \<noteq> [] then ?o1\<lparr>paymentStatus := p\<rparr> else ?o1"
  let ?doc = "?o2\<lparr>updatedAt := Some now\<rparr>"
  from f have ff: "findById_raw db (oid ord) = Some ord" "\<not> isNew ord"
    and c: "castObjectId i = Some (oid ord)"
    using fetched_facts by blast+
  have "oid ?o2 = oid ord" "\<not> isNew ?o2"
    using ff by (simp_all split: option.splits)
  from save_fetched [OF ff(1) this, of rt now]
  obtain db' where s: "save rt now db ?o2 = Inr (db', ?doc)"
    and g: "findById_raw db' (oid ord) = Some ?doc"
    and k: "orderNumber ?o2 = orderNumber ord \<longrightarrow> map orderNumber db' = map orderNumber db"
    by blast
  have "orderNumber ?o2 = orderNumber ord" by (simp split: option.splits)
  with k have k': "map orderNumber db' = map orderNumber db" by simp
  have o: "oid ?doc = oid ord" by (simp split: option.splits)
  have g': "Order_findById db' i = Inr (Some ?doc)"
    using g by (simp add: Order_findById_cast [OF c])
  have "PUT_status rt now db i b =
            (Response 200 (MessageOrder ''Order status updated successfully'' (Some ?doc)), db')"
    using f v s g o by (simp add: PUT_status_def Let_def)
  moreover have "status ?doc = body_status b" by (simp split: option.splits)
  moreover have "paymentStatus ?doc =
            (case body_paymentStatus b of None \<Rightarrow> paymentStatus ord
             | Some p \<Rightarrow> if p \<noteq> [] then p else paymentStatus ord)"
    by (simp split: option.splits)
  moreover have "orderNumber ?doc = orderNumber ord" by (simp split: option.splits)
  ultimately show ?thesis using g' k' by blast
qed

lemma PUT_status_invalid:
  "validate_status b \<noteq> [] \<Longrightarrow>
   PUT_status rt now db i b = (Response 400 (Errors (validate_status b)), db)"
  by (simp add: PUT_status_def Let_def)

lemma PUT_status_missing:
  "validate_status b = [] \<Longrightarrow> \<forall>ord. Order_findById db i \<noteq> Inr (Some ord) \<Longrightarrow>
   PUT_status rt now db i b = (Response 404 (Message ''Order not found''), db)"
  by (auto simp: PUT_status_def Let_def on_error_def Order_findById_def
           split: sum.splits option.splits store_error.splits)



subsection \<open>Order creation\<close>

lemma foldl_sum: "foldl (\<lambda>s x. s + f x) a xs = a + sum_list (map f xs)" for a :: rat
  by (induction xs arbitrary: a) (simp_all add: add.assoc)

lemma calculateTotals_sum:
  "subtotal (calculateTotals this) = (\<Sum>oi\<leftarrow>items this. price oi * of_int (quantity oi))
   \<and> total (calculateTotals this) = subtotal (calculateTotals this) + tax this
   \<and> items (calculateTotals this) = items this \<and> tax (calculateTotals this) = tax this"
  by (simp add: calculateTotals_def Let_def foldl_sum)

text \<open>What the loop of the handler returns when it runs through: the items of the
  request, in order, each with the price of its published design, and the sum of price
  times quantity.\<close>

lemma resolve_items_Inr:
  "resolve_items ds its acc sub = Inr (ois, s) \<Longrightarrow>
   \<exists>new. ois = acc @ new
     \<and> s = sub + sum_list (map (\<lambda>oi. price oi * of_int (quantity oi)) new)
     \<and> list_all2 (\<lambda>it oi. \<exists>k d. castObjectId (item_design it) = Some k
                             \<and> find (\<lambda>d. design_id d = k) ds = Some d
                             \<and> design_status d = ''published''
                             \<and> oi = \<lparr>design = design_id d, quantity = item_quantity it,
                                     price = design_price d, license = item_license it\<rparr>) its new"
proof (induction its arbitrary: acc sub)
  case Nil
  then show ?case by simp
next
  case (Cons it its)
  from Cons.prems obtain k d where d: "castObjectId (item_design it) = Some k"
      "find (\<lambda>d. design_id d = k) ds = Some d" "design_status d = ''published''"
    and r: "resolve_items ds its
              (acc @ [\<lparr>design = design_id d, quantity = item_quantity it,
                        price = design_price d, license = item_license it\<rparr>])
              (sub + design_price d * of_int (item_quantity it)) = Inr (ois, s)"
    by (auto simp: Design_findById_def Let_def split: sum.splits option.splits if_splits)
  let ?oi = "\<lparr>design = design_id d, quantity = item_quantity it,
                        price = design_price d, license = item_license it\<rparr>"
  let ?P = "\<lambda>it oi. \<exists>k d. castObjectId (item_design it) = Some k
                             \<and> find (\<lambda>d. design_id d = k) ds = Some d
                             \<and> design_status d = ''published''
                             \<and> oi = \<lparr>design = design_id d, quantity = item_quantity it,
                                     price = design_price d, license = item_license it\<rparr>"
  from Cons.IH [OF r] obtain new where n: "ois = (acc @ [?oi]) @ new"
    "s = (sub + design_price d * of_int (item_quantity it))
           + sum_list (map (\<lambda>oi. price oi * of_int (quantity oi)) new)"
    "list_all2 ?P its new"
    by blast
  have "ois = acc @ (?oi # new)" using n(1) by simp
  moreover have "s = sub + sum_list (map (\<lambda>oi. price oi * of_int (quantity oi)) (?oi # new))"
    using n(2) by simp
  moreover have "?P it ?oi" using d by blast
  then have "list_all2 ?P (it # its) (?oi # new)" using n(3) by simp
  ultimately show ?case by blast
qed

lemma resolve_items_Inl: "resolve_items ds its acc sub = Inl r \<Longrightarrow> http_status r \<noteq> 201"
  by (induction its arbitrary: acc sub)
     (auto simp: Let_def split: sum.splits option.splits if_splits)


text \<open>The document that the handler builds has no order number, so its first save is
  rejected by the validation, before the hook that would set the number.\<close>

lemma new_Order_rejected:
  "save rt now db (new_Order new_id user its sub tx tot m ba sa nt) = Inl ValidationError"
  by (simp add: save_def schema_valid_def new_Order_def)

lemma POST_orders_stores_nothing:
  "snd (POST_orders rt now new_id user ds db b) = db
   \<and> http_status (fst (POST_orders rt now new_id user ds db b)) \<noteq> 201"
  by (auto simp: POST_orders_def Let_def new_Order_rejected
           split: sum.splits prod.splits dest: resolve_items_Inl)


text \<open>
  Claim C1 on its end-to-end example. For the cart of design A at 100 once and design B
  at 50 twice the handler computes the items and the subtotal 200 and builds the
  document with tax \<open>200 * 0.085 = 17\<close> and total 217, but the save of that document is rejected (the
  required \<open>orderNumber\<close> is set only by the \<open>pre('save')\<close> hook, which runs after the
  validation): the answer is 500 and no order is stored.
\<close>

theorem POST_orders_example_rejected:
  "resolve_items catalog (body_items cart_AB) [] 0 = Inr (items (fresh_order order_id), 200)
   \<and> new_Order order_id alice (items (fresh_order order_id)) 200 (200 * taxRate)
         (200 + 200 * taxRate) ''stripe'' alice_address alice_address None = fresh_order order_id
   \<and> subtotal (fresh_order order_id) = 200 \<and> tax (fresh_order order_id) = 17
   \<and> total (fresh_order order_id) = 217
   \<and> save utc_runtime t_morning [] (fresh_order order_id) = Inl ValidationError
   \<and> POST_orders utc_runtime t_morning order_id alice catalog [] cart_AB =
       (Response 500 (Message ''Server error''), [])"
proof -
  have r: "resolve_items catalog (body_items cart_AB) [] 0 = Inr (items (fresh_order order_id), 200)"
    by code_simp
  have f: "new_Order order_id alice (items (fresh_order order_id)) 200 (200 * taxRate)
         (200 + 200 * taxRate) ''stripe'' alice_address alice_address None = fresh_order order_id"
    "subtotal (fresh_order order_id) = 200" "tax (fresh_order order_id) = 17"
    "total (fresh_order order_id) = 217"
    by (simp_all add: fresh_order_def new_Order_def taxRate_def)
  have s: "save utc_runtime t_morning [] (fresh_order order_id) = Inl ValidationError"
    unfolding fresh_order_def by (rule new_Order_rejected)
  have p: "POST_orders utc_runtime t_morning order_id alice catalog [] cart_AB =
       (Response 500 (Message ''Server error''), [])"
    by code_simp
  from r f s p show ?thesis by simp
qed

lemma resolve_items_first_bad:
  "find (\<lambda>it. \<not> purchasable ds (item_design it)) its = Some it \<Longrightarrow>
   castObjectId (item_design it) = Some k \<Longrightarrow>
   resolve_items ds its acc sub =
     Inl (Response 400 (Message
       (case find (\<lambda>d. design_id d = k) ds of
          None \<Rightarrow> ''Design with ID '' @ item_design it @ '' not found''
        | Some d \<Rightarrow> ''Design '' @ title d @ '' is not available for purchase'')))"
proof (induction its arbitrary: acc sub)
  case Nil
  then show ?case by simp
next
  case (Cons x its)
  show ?case
  proof (cases "purchasable ds (item_design x)")
    case True
    with Cons.prems have "find (\<lambda>it. \<not> purchasable ds (item_design it)) its = Some it" by simp
    from Cons.IH [OF this Cons.prems(2)] True show ?thesis
      by (auto simp: purchasable_def Design_findById_def Let_def split: option.splits)
  next
    case False
    with Cons.prems have "it = x" by simp
    with False Cons.prems(2) show ?thesis
      by (auto simp: purchasable_def Design_findById_def split: option.splits)
  qed
qed

lemma resolve_items_cast_error:
  "find (\<lambda>it. \<not> purchasable ds (item_design it)) its = Some it \<Longrightarrow>
   castObjectId (item_design it) = None \<Longrightarrow>
   resolve_items ds its acc sub = Inl (Response 500 (Message ''Server error''))"
proof (induction its arbitrary: acc sub)
  case Nil
  then show ?case by simp
next
  case (Cons x its)
  show ?case
  proof (cases "purchasable ds (item_design x)")
    case True
    with Cons.prems have "find (\<lambda>it. \<not> purchasable ds (item_design it)) its = Some it" by simp
    from Cons.IH [OF this Cons.prems(2)] True show ?thesis
      by (auto simp: purchasable_def Design_findById_def Let_def split: option.splits)
  next
    case False
    with Cons.prems have "it = x" by simp
    with Cons.prems(2) show ?thesis
      by (simp add: Design_findById_def)
  qed
qed

text \<open>
  Claim C7, as amended. When the body of \<open>POST /orders\<close> passes validation and the first
  item, in request order, that cannot be bought has a well-formed ObjectId, the response
  is 400 and no order is stored: \<open>Design with ID ... not found\<close> when that design does
  not exist, \<open>Design ... is not available for purchase\<close> when it is not published.
\<close>

theorem POST_orders_bad_design:
  assumes "validate_create rt b = []"
    and "find (\<lambda>it. \<not> purchasable ds (item_design it)) (body_items b) = Some it"
    and "castObjectId (item_design it) = Some k"
  shows "POST_orders rt now new_id user ds db b =
     (Response 400 (Message
       (case find (\<lambda>d. design_id d = k) ds of
          None \<Rightarrow> ''Design with ID '' @ item_design it @ '' not found''
        | Some d \<Rightarrow> ''Design '' @ title d @ '' is not available for purchase'')), db)"
  using assms(1) resolve_items_first_bad [OF assms(2,3), of "[]" 0]
  by (simp add: POST_orders_def Let_def)

text \<open>The case that the amended claim leaves out: an id that the route's validator
  accepts and that is not an ObjectId (a prefix \<open>0x\<close> or \<open>0h\<close>) makes the lookup raise,
  and the answer is 500.\<close>

lemma POST_orders_cast_error:
  assumes "validate_create rt b = []"
    and "find (\<lambda>it. \<not> purchasable ds (item_design it)) (body_items b) = Some it"
    and "castObjectId (item_design it) = None"
  shows "POST_orders rt now new_id user ds db b = (Response 500 (Message ''Server error''), db)"
  using assms(1) resolve_items_cast_error [OF assms(2,3), of "[]" 0]
  by (simp add: POST_orders_def Let_def)

lemma prefixed_id_answers_500:
  "validate_create utc_runtime cart_prefixed = []
   \<and> POST_orders utc_runtime t_morning order_id alice catalog [] cart_prefixed =
       (Response 500 (Message ''Server error''), [])"
  by code_simp

subsection \<open>The order number\<close>

text \<open>What the hook does when it runs: on a new document it sets the order number to
  the generated string, and it leaves every other document as it is.\<close>

lemma pre_save_new:
  "isNew this \<Longrightarrow> pre_save rt now db this = this\<lparr>orderNumber := Some (generated_number rt now db)\<rparr>"
  by (simp add: pre_save_def generated_number_def sequence_of_def todayStart_def todayEnd_def Let_def)

lemma pre_save_old: "\<not> isNew this \<Longrightarrow> pre_save rt now db this = this"
  by (simp add: pre_save_def)

text \<open>
  Claim C2 at the first save of an order. The document that the handler builds carries
  no order number; the hook would set it to the generated string, but the save is
  rejected by the validation of the required \<open>orderNumber\<close> before the hook runs, for
  every clock, collection and cart: no order number is ever assigned.
\<close>

theorem first_save_rejected:
  "orderNumber (new_Order new_id user its sub tx tot m ba sa nt) = None
   \<and> orderNumber (pre_save rt now db (new_Order new_id user its sub tx tot m ba sa nt)) =
       Some (generated_number rt now db)
   \<and> save rt now db (new_Order new_id user its sub tx tot m ba sa nt) = Inl ValidationError"
proof -
  have n: "isNew (new_Order new_id user its sub tx tot m ba sa nt)"
    "orderNumber (new_Order new_id user its sub tx tot m ba sa nt) = None"
    by (simp_all add: new_Order_def)
  from n show ?thesis by (simp add: pre_save_new new_Order_rejected)
qed


text \<open>The string that the hook assembles: \<open>ORD\<close> and at least eight digits, so the
  unanchored pattern \<open>ORD\d{8}\<close> matches it.\<close>

lemma generated_number_digits:
  "\<exists>ds. generated_number rt now db = ''ORD'' @ ds \<and> list_all isDigit ds \<and> 8 \<le> length ds"
proof -
  let ?yy = "slice_last 2 (toString (getFullYear rt now))"
  let ?mm = "padStart 2 CHR ''0'' (toString (getMonth rt now + 1))"
  let ?dd = "padStart 2 CHR ''0'' (toString (getDate rt now))"
  let ?sq = "padStart 3 CHR ''0'' (toString (sequence_of rt now db))"
  have d: "list_all isDigit ?yy" "list_all isDigit ?mm" "list_all isDigit ?dd" "list_all isDigit ?sq"
    by (simp_all add: slice_last_digits padStart_digits toString_digits)
  have "1 \<le> length ?yy"
    using length_toString_pos [of "getFullYear rt now"] by (simp add: length_slice_last)
  moreover have "2 \<le> length ?mm" "2 \<le> length ?dd" "3 \<le> length ?sq"
    by (simp_all add: length_padStart)
  ultimately have l: "8 \<le> length (?yy @ ?mm @ ?dd @ ?sq)" by simp
  have "generated_number rt now db = ''ORD'' @ (?yy @ ?mm @ ?dd @ ?sq)"
    by (simp add: generated_number_def)
  moreover have "list_all isDigit (?yy @ ?mm @ ?dd @ ?sq)" using d by simp
  ultimately show ?thesis using l by blast
qed

lemma generated_number_matches: "matches_ORD_d8 (generated_number rt now db)"
  using generated_number_digits [of rt now db] matches_ORD by auto

lemma length_sequence_small:
  "n < 1000 \<Longrightarrow> length (padStart 3 CHR ''0'' (toString n)) = 3"
proof -
  assume "n < 1000"
  then consider "n < 10" | "10 \<le> n \<and> n < 100" | "100 \<le> n \<and> n < 1000" by linarith
  then have "length (toString n) \<le> 3"
    by cases (simp_all add: length_toString_1 length_toString_2 length_toString_3)
  then show ?thesis by (simp add: length_padStart)
qed

lemma length_two_digits: "n < 100 \<Longrightarrow> length (padStart 2 CHR ''0'' (toString n)) = 2"
proof -
  assume "n < 100"
  then consider "n < 10" | "10 \<le> n \<and> n < 100" by linarith
  then have "length (toString n) \<le> 2"
    by cases (simp_all add: length_toString_1 length_toString_2)
  then show ?thesis by (simp add: length_padStart)
qed

lemma length_sequence:
  "length (padStart 3 CHR ''0'' (toString n)) = 3 \<longleftrightarrow> n < 1000"
proof (cases "n < 1000")
  case True
  then show ?thesis by (simp add: length_sequence_small)
next
  case False
  then have "4 \<le> length (toString n)" by (simp add: length_toString_4)
  with False show ?thesis by (simp add: length_padStart)
qed

text \<open>For a clock whose year has at least two digits the string is \<open>ORD\<close>, the last
  two digits of the year, the two-digit month, the two-digit day and the sequence
  number (the day's count plus one) padded with zeros to at least three digits; the
  sequence has three digits precisely while the count is below 999.\<close>

lemma generated_number_shape:
  assumes "10 \<le> getFullYear rt now" and "getMonth rt now \<le> 11" and "getDate rt now \<le> 31"
  shows "\<exists>yy mm dd sq. generated_number rt now db = ''ORD'' @ yy @ mm @ dd @ sq
         \<and> length yy = 2 \<and> length mm = 2 \<and> length dd = 2 \<and> 3 \<le> length sq
         \<and> list_all isDigit (yy @ mm @ dd @ sq)
         \<and> parseDigits yy = getFullYear rt now mod 100
         \<and> parseDigits mm = getMonth rt now + 1
         \<and> parseDigits dd = getDate rt now
         \<and> parseDigits sq = countDocuments db (todayStart rt now) (todayEnd rt now) + 1
         \<and> (length sq = 3 \<longleftrightarrow> countDocuments db (todayStart rt now) (todayEnd rt now) < 999)"
proof -
  let ?yy = "slice_last 2 (toString (getFullYear rt now))"
  let ?mm = "padStart 2 CHR ''0'' (toString (getMonth rt now + 1))"
  let ?dd = "padStart 2 CHR ''0'' (toString (getDate rt now))"
  let ?k = "countDocuments db (todayStart rt now) (todayEnd rt now)"
  let ?sq = "padStart 3 CHR ''0'' (toString (?k + 1))"
  have g: "generated_number rt now db = ''ORD'' @ ?yy @ ?mm @ ?dd @ ?sq"
    by (simp add: generated_number_def sequence_of_def)
  from assms have m: "getMonth rt now + 1 < 100" and dy: "getDate rt now < 100" by simp_all
  have l2: "length ?mm = 2" "length ?dd = 2"
    by (rule length_two_digits [OF m], rule length_two_digits [OF dy])
  have l1: "length ?yy = 2" using assms(1) by (simp add: year_two_digits)
  have l3: "3 \<le> length ?sq" by (simp add: length_padStart)
  have d: "list_all isDigit (?yy @ ?mm @ ?dd @ ?sq)"
    by (simp add: slice_last_digits padStart_digits toString_digits)
  have p: "parseDigits ?yy = getFullYear rt now mod 100" "parseDigits ?mm = getMonth rt now + 1"
    "parseDigits ?dd = getDate rt now" "parseDigits ?sq = ?k + 1"
    using assms(1) by (simp_all add: parse_year parseDigits_padStart parseDigits_toString)
  have q: "length ?sq = 3 \<longleftrightarrow> ?k < 999"
    using length_sequence [of "?k + 1"] by simp
  from g l1 l2 l3 d p q show ?thesis
    by (intro exI [of _ ?yy] exI [of _ ?mm] exI [of _ ?dd] exI [of _ ?sq]) simp
qed

lemma utc_day:
  "getFullYear utc_runtime t_morning = 2025" "getMonth utc_runtime t_morning = 0"
  "getDate utc_runtime t_morning = 15"
  "todayStart utc_runtime t_morning = 1736899200000" "todayEnd utc_runtime t_morning = 1736985600000"
  "getFullYear utc_runtime t_later = 2025" "getMonth utc_runtime t_later = 0"
  "getDate utc_runtime t_later = 15"
  "todayStart utc_runtime t_later = 1736899200000" "todayEnd utc_runtime t_later = 1736985600000"
  by code_simp+

lemma generated_number_utc:
  "t = t_morning \<or> t = t_later \<Longrightarrow>
   generated_number utc_runtime t db =
     ''ORD250115'' @ padStart 3 CHR ''0'' (toString (countDocuments db 1736899200000 1736985600000 + 1))"
proof -
  have e: "slice_last 2 (toString 2025) = ''25''" "padStart 2 CHR ''0'' (toString (0 + 1)) = ''01''"
    "padStart 2 CHR ''0'' (toString 15) = ''15''" "padStart 2 CHR ''0'' (toString (Suc 0)) = ''01''"
    by code_simp+
  assume "t = t_morning \<or> t = t_later"
  then show ?thesis
    by (auto simp: generated_number_def sequence_of_def utc_day e)
qed

lemma count_day_orders:
  "n \<le> 1000 \<Longrightarrow> countDocuments (day_orders n) 1736899200000 1736985600000 = n"
proof -
  assume n: "n \<le> 1000"
  have "filter (\<lambda>x. case createdAt x of None \<Rightarrow> False
                     | Some t \<Rightarrow> 1736899200000 \<le> t \<and> t < 1736985600000) (day_orders n) = day_orders n"
    using n by (intro filter_True) (auto simp: day_orders_def nth_order_def)
  then show ?thesis by (simp add: countDocuments_def day_orders_def)
qed

text \<open>The hook on the thousandth document of a day: the sequence is not cut to three
  digits.\<close>

lemma hook_thousandth_order:
  "orderNumber (pre_save utc_runtime t_morning (day_orders 999) (fresh_order order_id)) =
     Some ''ORD2501151000''"
proof -
  have e: "padStart 3 CHR ''0'' (toString 1000) = ''1000''" by code_simp
  have n: "isNew (fresh_order order_id)" by (simp add: fresh_order_def new_Order_def)
  show ?thesis
    by (simp add: pre_save_new [OF n] generated_number_utc count_day_orders e)
qed

text \<open>The routes that save a stored order leave the order numbers of the whole
  collection as they are.\<close>

lemma PUT_status_numbers: "map orderNumber (snd (PUT_status rt now db i b)) = map orderNumber db"
proof (cases "validate_status b = []")
  case False
  then show ?thesis by (simp add: PUT_status_invalid)
next
  case True
  show ?thesis
  proof (cases "\<exists>ord. Order_findById db i = Inr (Some ord)")
    case False
    with True show ?thesis by (simp add: PUT_status_missing)
  next
    case True
    then obtain ord where "Order_findById db i = Inr (Some ord)" by blast
    from PUT_status_ok [OF this \<open>validate_status b = []\<close>, of rt now] show ?thesis by auto
  qed
qed

lemma POST_tracking_numbers: "map orderNumber (snd (POST_tracking rt now db i b)) = map orderNumber db"
proof (cases "\<exists>ord. validate_tracking b = [] \<and> Order_findById db i = Inr (Some ord)")
  case False
  then show ?thesis
    by (auto simp: POST_tracking_def Let_def split: sum.splits option.splits)
next
  case True
  then obtain ord where v: "validate_tracking b = []" and f: "Order_findById db i = Inr (Some ord)"
    by blast
  from addTrackingUpdate_fetched [OF f, of rt now "tbody_status b" "map_option trim (tbody_location b)"
      "map_option trim (tbody_description b)"] v f
  show ?thesis by (auto simp: POST_tracking_def Let_def)
qed

lemma POST_refund_numbers: "map orderNumber (snd (POST_refund rt now user db i b)) = map orderNumber db"
proof (cases "\<exists>amt rsn ord. validate_refund b = Inr (amt, rsn) \<and> Order_findById db i = Inr (Some ord)
                 \<and> \<not> amt > total ord")
  case False
  then show ?thesis
    by (auto simp: POST_refund_def split: sum.splits option.splits)
next
  case True
  then obtain amt rsn ord where v: "validate_refund b = Inr (amt, rsn)"
    and f: "Order_findById db i = Inr (Some ord)" and t: "\<not> amt > total ord"
    by blast
  from processRefund_fetched [OF f, of rt now amt rsn user] v f t
  show ?thesis by (auto simp: POST_refund_def)
qed

subsection \<open>Examples\<close>



text \<open>
  Claim C5 on the example order: a refund of 300 against a total of 217.
\<close>

theorem refund_above_total_rejected_witness:
  "Order_findById [order_AB] order_id = Inr (Some order_AB)
   \<and> body_amount refund_excess = Some 300 \<and> 300 > total order_AB
   \<and> POST_refund utc_runtime t_later admin [order_AB] order_id refund_excess =
       (Response 400 (Message ''Refund amount cannot exceed order total''), [order_AB])"
proof -
  have h: "Order_findById [order_AB] order_id = Inr (Some order_AB)" by code_simp
  have a: "body_amount refund_excess = Some 300" by (simp add: refund_excess_def)
  have g: "300 > total order_AB" by (simp add: order_AB_def new_Order_def)
  have v: "validate_refund refund_excess = Inr (300, ''goodwill'')" by code_simp
  from refund_above_total_rejected [OF h a g, of utc_runtime t_later admin]
  have "POST_refund utc_runtime t_later admin [order_AB] order_id refund_excess =
       (Response 400 (Message ''Refund amount cannot exceed order total''), [order_AB])"
    by (simp add: v prod_eq_iff)
  with h a g show ?thesis by blast
qed


text \<open>
  Claim C7 (amended) on a cart whose second design is a draft, its id written in upper
  case.
\<close>

theorem POST_orders_bad_design_witness:
  "validate_create utc_runtime cart_draft = []
   \<and> find (\<lambda>it. \<not> purchasable catalog (item_design it)) (body_items cart_draft) =
       Some \<lparr>item_design = ''64B000000000000000000A03'', item_quantity = 1, item_license = ''personal''\<rparr>
   \<and> castObjectId ''64B000000000000000000A03'' = Some ''64b000000000000000000a03''
   \<and> POST_orders utc_runtime t_morning order_id alice catalog [order_AB] cart_draft =
       (Response 400 (Message ''Design Unfinished Tower is not available for purchase''), [order_AB])"
proof -
  let ?it = "\<lparr>item_design = ''64B000000000000000000A03'', item_quantity = 1, item_license = ''personal''\<rparr>"
  have v: "validate_create utc_runtime cart_draft = []" by code_simp
  have f: "find (\<lambda>it. \<not> purchasable catalog (item_design it)) (body_items cart_draft) = Some ?it"
    by code_simp
  have c: "castObjectId ''64B000000000000000000A03'' = Some ''64b000000000000000000a03''"
    by code_simp
  have c': "castObjectId (item_design ?it) = Some ''64b000000000000000000a03''"
    using c by simp
  have m: "(case find (\<lambda>d. design_id d = ''64b000000000000000000a03'') catalog of
          None \<Rightarrow> ''Design with ID '' @ item_design ?it @ '' not found''
        | Some d \<Rightarrow> ''Design '' @ title d @ '' is not available for purchase'')
        = ''Design Unfinished Tower is not available for purchase''"
    by code_simp
  from POST_orders_bad_design [OF v f c', of t_morning order_id alice "[order_AB]"]
  have "POST_orders utc_runtime t_morning order_id alice catalog [order_AB] cart_draft =
       (Response 400 (Message ''Design Unfinished Tower is not available for purchase''), [order_AB])"
    unfolding m .
  with v f c show ?thesis by blast
qed

text \<open>
  Against claim C7 as stated: an order for a design that is not in the catalog is
  answered with 400, not 404.
\<close>

theorem missing_design_answers_400:
  "POST_orders utc_runtime t_morning order_id alice catalog [] cart_missing =
     (Response 400 (Message ''Design with ID 64b000000000000000000a09 not found''), [])"
  by code_simp

text \<open>
  Claim C9 at the amount zero. The validator \<open>isFloat({min: 0})\<close> lets the amount 0
  pass, although its message asks for a positive number: the request is answered with
  200 and the order is stored as refunded with a refund of 0.
\<close>

theorem refund_of_zero_accepted:
  "POST_refund utc_runtime t_later admin [order_AB] order_id refund_zero =
     (Response 200 (Message ''Refund processed successfully''),
      [order_AB\<lparr>refund := Some \<lparr>amount = 0, reason = ''goodwill'', processedAt = t_later,
                                 processedBy = admin\<rparr>,
                status := ''refunded'', paymentStatus := ''refunded'',
                updatedAt := Some t_later\<rparr>])"
  by code_simp


end
